theory Spec2Isabelle
  imports Main "HOL-Library.Sublist"
begin

text \<open>
  The message-dispatch pipeline of the chat client: the chat slice of the store
  and its thunks (\<^verbatim>\<open>store/chatSlice\<close>), the completion client with its retry
  loop (\<^verbatim>\<open>services/grokService\<close>), the submit handler of the input component,
  and the snapshot store over \<^verbatim>\<open>localStorage\<close> (\<^verbatim>\<open>utils/messagePersistence\<close>).
\<close>

section \<open>Data model\<close>

text \<open>
  \<^verbatim>\<open>src/types/chat.ts\<close>: a chat message. The optional \<^verbatim>\<open>isLoading\<close> flag is
  a \<open>bool option\<close> (\<open>None\<close> when the field is absent). The field names carry the
  suffix \<open>_m\<close> because the session state has fields of the same names.
\<close>

datatype sender = User | Assistant

record IMessage =
  id_m :: string
  text_m :: string
  sender_m :: sender
  timestamp_m :: string
  isLoading_m :: "bool option"

datatype connection_status = Connected | Disconnected | Reconnecting

text \<open>
  \<^verbatim>\<open>ChatState\<close> of the store (\<^verbatim>\<open>src/store/index.ts\<close>, the chat slice). The retry
  counter only ever starts at 0 and is incremented, so it is a \<open>nat\<close>.
\<close>

record ChatState =
  messages :: "IMessage list"
  isLoading :: bool
  error :: "string option"
  currentInput :: string
  isTyping :: bool
  sessionId :: "string option"
  messageQueue :: "string list"
  isProcessingQueue :: bool
  connectionStatus :: connection_status
  retryCount :: nat

definition initialState :: ChatState where
  "initialState =
     \<lparr>messages = [], isLoading = False, error = None, currentInput = [],
      isTyping = False, sessionId = None, messageQueue = [],
      isProcessingQueue = False, connectionStatus = Connected, retryCount = 0\<rparr>"

section \<open>Reducers of the chat slice\<close>

text \<open>
  Each reducer mutates the draft state; here it returns the new state. The
  identifier and the timestamp of a new message come from \<^verbatim>\<open>Date.now()\<close>,
  \<^verbatim>\<open>Math.random()\<close> and \<^verbatim>\<open>new Date()\<close>; they are arguments of the model.
\<close>

definition addUserMessage :: "string \<Rightarrow> string \<Rightarrow> string \<Rightarrow> ChatState \<Rightarrow> ChatState" where
  "addUserMessage new_id now payload s =
     s\<lparr>messages := messages s @
          [\<lparr>id_m = new_id, text_m = payload, sender_m = User,
            timestamp_m = now, isLoading_m = None\<rparr>],
       currentInput := [],
       error := None\<rparr>"

definition enqueueMessage :: "string \<Rightarrow> ChatState \<Rightarrow> ChatState" where
  "enqueueMessage payload s = s\<lparr>messageQueue := messageQueue s @ [payload]\<rparr>"

text \<open>\<^verbatim>\<open>Array.prototype.shift\<close> on an empty array leaves it empty.\<close>

definition dequeueMessage :: "ChatState \<Rightarrow> ChatState" where
  "dequeueMessage s = s\<lparr>messageQueue := tl (messageQueue s)\<rparr>"

definition clearQueue :: "ChatState \<Rightarrow> ChatState" where
  "clearQueue s = s\<lparr>messageQueue := [], isProcessingQueue := False\<rparr>"

definition setConnectionStatus :: "connection_status \<Rightarrow> ChatState \<Rightarrow> ChatState" where
  "setConnectionStatus payload s =
     (let s1 = s\<lparr>connectionStatus := payload\<rparr>
      in if payload = Connected then s1\<lparr>retryCount := 0\<rparr> else s1)"

definition incrementRetryCount :: "ChatState \<Rightarrow> ChatState" where
  "incrementRetryCount s = s\<lparr>retryCount := retryCount s + 1\<rparr>"

definition resetRetryCount :: "ChatState \<Rightarrow> ChatState" where
  "resetRetryCount s = s\<lparr>retryCount := 0\<rparr>"

section \<open>Retrying request executor\<close>

text \<open>
  \<^verbatim>\<open>GrokService.retryWithBackoff\<close>. A JavaScript exception is a value of type
  \<open>thrown\<close>: an \<^verbatim>\<open>Error\<close> with its message, or \<^verbatim>\<open>undefined\<close> (what
  \<^verbatim>\<open>throw lastError!\<close> throws when \<^verbatim>\<open>lastError\<close> was never assigned).

  The operation \<^verbatim>\<open>fn\<close> is effectful: \<open>fn k\<close> is the outcome of its invocation in
  attempt \<open>k\<close>, \<open>Inl\<close> when the promise rejects. The executor returns its outcome
  together with the trace of what it did: \<open>Call k\<close> is the invocation of \<^verbatim>\<open>fn\<close> in
  attempt \<open>k\<close>, \<open>Sleep ms\<close> the \<^verbatim>\<open>setTimeout\<close> wait of \<open>ms\<close> milliseconds.
  The retry budget \<^verbatim>\<open>maxRetries\<close> is a natural number.
\<close>

datatype thrown = Error string | Undefined

datatype effect = Call nat | Sleep nat

text \<open>
  The \<^verbatim>\<open>for\<close> loop, entered with the loop variable \<open>attempt\<close> and the current
  value of \<^verbatim>\<open>lastError\<close>; the last branch is the \<^verbatim>\<open>throw lastError!\<close> after
  the loop.
\<close>

function retryLoop ::
  "(nat \<Rightarrow> thrown + 'a) \<Rightarrow> nat \<Rightarrow> nat \<Rightarrow> thrown \<Rightarrow> (thrown + 'a) \<times> effect list" where
  "retryLoop fn maxRetries attempt lastError =
     (if attempt \<le> maxRetries then
        (case fn attempt of
           Inr v \<Rightarrow> (Inr v, [Call attempt])
         | Inl e \<Rightarrow>
             if attempt = maxRetries then (Inl e, [Call attempt])
             else apsnd (\<lambda>tr. Call attempt # Sleep (2 ^ attempt * 1000) # tr)
                    (retryLoop fn maxRetries (attempt + 1) e))
      else (Inl lastError, []))"
  by pat_completeness auto
termination
  by (relation "measure (\<lambda>(fn, maxRetries, attempt, lastError). Suc maxRetries - attempt)") auto

definition retryWithBackoff ::
  "(nat \<Rightarrow> thrown + 'a) \<Rightarrow> nat \<Rightarrow> (thrown + 'a) \<times> effect list" where
  "retryWithBackoff fn maxRetries = retryLoop fn maxRetries 0 Undefined"

definition attempts :: "effect list \<Rightarrow> nat" where
  "attempts tr = length (filter (\<lambda>e. case e of Call k \<Rightarrow> True | Sleep ms \<Rightarrow> False) tr)"

text \<open>The trace of a run in which the attempts \<open>k, ..., maxRetries\<close> all fail.\<close>

fun backoffTrace :: "nat \<Rightarrow> nat \<Rightarrow> effect list" where
  "backoffTrace k 0 = [Call k]"
| "backoffTrace k (Suc n) = Call k # Sleep (2 ^ k * 1000) # backoffTrace (Suc k) n"

section \<open>Completion client\<close>

text \<open>
  \<^verbatim>\<open>GrokService\<close>: its configuration, the request it posts, and what the network
  answers. Of the request body the model keeps the fields the service computes
  (\<^verbatim>\<open>model\<close>, \<^verbatim>\<open>messages\<close>) and the two discrete constants; the sampling
  constants \<^verbatim>\<open>temperature\<close> and \<^verbatim>\<open>top_p\<close> are left out.
\<close>

datatype role = SystemRole | UserRole | AssistantRole

record GrokMessage =
  role :: role
  content :: string

record GrokRequest =
  model_r :: string
  messages_r :: "GrokMessage list"
  max_tokens :: nat
  stream :: bool

record GrokServiceConfig =
  apiKey :: string
  apiUrl :: string
  model :: string
  timeout :: nat
  maxRetries :: nat
  useMockResponses :: bool

text \<open>
  What \<^verbatim>\<open>response.json()\<close> finds in the body of a response: text that is not
  JSON (the promise rejects with an error of the given message), a document read
  as \<^verbatim>\<open>GrokError\<close> (\<open>Some m\<close> when it has \<^verbatim>\<open>error.message\<close>, \<open>None\<close> when
  it has no \<^verbatim>\<open>error\<close> object), or a document read as \<^verbatim>\<open>GrokResponse\<close> (the
  \<^verbatim>\<open>message.content\<close> of each choice, the empty string when it is missing).
\<close>

datatype body = NotJson string | ErrorBody "string option" | Completion "string list"

record http_response =
  status :: nat
  statusText :: string
  body :: body

text \<open>
  What one \<^verbatim>\<open>fetch\<close> settles with: a response, the abort of the timeout's
  \<^verbatim>\<open>AbortController\<close>, or a rejection with an \<^verbatim>\<open>Error\<close> of the given message.
\<close>

datatype fetch_result = Response http_response | AbortError | Failed string

text \<open>
  The surroundings of the service: the result of the \<open>k\<close>-th \<^verbatim>\<open>fetch\<close>, the system
  prompt \<^verbatim>\<open>getSystemPrompt\<close> builds for a message (it reads the repository
  analyser, which is not part of the sources), the canned answer and the random
  delay of the offline responder, and the text clean-up of \<^verbatim>\<open>formatResponse\<close>
  (\<^verbatim>\<open>trim\<close> and the regular-expression rewriting of
  \<^verbatim>\<open>enhanceMarkdownFormatting\<close>).
\<close>

record service_env =
  fetch :: "nat \<Rightarrow> fetch_result"
  getSystemPrompt :: "string \<Rightarrow> string"
  getMockResponse :: "string \<Rightarrow> string"
  mockDelay :: nat
  enhanceMarkdownFormatting :: "string \<Rightarrow> string"

text \<open>\<^verbatim>\<open>Number.prototype.toString\<close> on a natural number: its decimal digits.\<close>

definition digit :: "nat \<Rightarrow> char" where
  "digit d = ''0123456789'' ! d"

function toString :: "nat \<Rightarrow> string" where
  "toString n = (if n < 10 then [digit n] else toString (n div 10) @ [digit (n mod 10)])"
  by pat_completeness auto
termination
  by (relation "measure id") auto

definition formatResponse :: "service_env \<Rightarrow> body \<Rightarrow> thrown + string" where
  "formatResponse env b =
     (case b of
        Completion (c # cs) \<Rightarrow>
          if c = [] then Inl (Error ''Invalid response format from Grok API'')
          else Inr (enhanceMarkdownFormatting env c)
      | _ \<Rightarrow> Inl (Error ''No response choices received from Grok API''))"

text \<open>
  The message of the error thrown for a response that is not \<^verbatim>\<open>ok\<close>. Reading
  \<^verbatim>\<open>errorData.error.message\<close> of a document without an \<^verbatim>\<open>error\<close> object is a
  \<^verbatim>\<open>TypeError\<close>, thrown before the status is looked at.
\<close>

definition userMessage :: "http_response \<Rightarrow> string" where
  "userMessage r =
     (case body r of
        NotJson e \<Rightarrow>
          (let fallback = ''HTTP '' @ toString (status r) @ '': '' @ statusText r
           in if status r = 401 then ''Invalid API key. Please check your Grok API configuration.''
              else if status r = 429 then ''Rate limit exceeded. Please wait a moment before sending another message.''
              else if status r \<ge> 500 then ''Grok service is temporarily unavailable. Please try again later.''
              else if status r = 403 then ''Access denied. Please check your API key permissions.''
              else fallback)
      | ErrorBody (Some m) \<Rightarrow>
          (if status r = 401 then ''Invalid API key. Please check your Grok API configuration.''
           else if status r = 429 then ''Rate limit exceeded. Please wait a moment before sending another message.''
           else if status r \<ge> 500 then ''Grok service is temporarily unavailable. Please try again later.''
           else if status r = 403 then ''Access denied. Please check your API key permissions.''
           else m)
      | _ \<Rightarrow> ''Cannot read properties of undefined'')"

text \<open>
  One attempt: the function handed to \<^verbatim>\<open>retryWithBackoff\<close> by
  \<^verbatim>\<open>sendMessage\<close>, applied to what its \<^verbatim>\<open>fetch\<close> settled with. \<^verbatim>\<open>response.ok\<close>
  is a status from 200 to 299.
\<close>

definition attempt :: "service_env \<Rightarrow> fetch_result \<Rightarrow> thrown + string" where
  "attempt env r =
     (case r of
        Response resp \<Rightarrow>
          if \<not> (200 \<le> status resp \<and> status resp \<le> 299) then Inl (Error (userMessage resp))
          else (case body resp of
                  NotJson e \<Rightarrow> Inl (Error e)
                | b \<Rightarrow> formatResponse env b)
      | AbortError \<Rightarrow> Inl (Error ''Request timeout - Grok API took too long to respond'')
      | Failed e \<Rightarrow> Inl (Error e))"

text \<open>
  The \<^verbatim>\<open>messages\<close> array and the request body built by \<^verbatim>\<open>sendMessage\<close>; every
  \<open>Call k\<close> in the trace of \<open>sendMessage\<close> is one \<^verbatim>\<open>POST\<close> of this body.
\<close>

definition requestMessages :: "service_env \<Rightarrow> string \<Rightarrow> GrokMessage list \<Rightarrow> GrokMessage list" where
  "requestMessages env message conversationHistory =
     [\<lparr>role = SystemRole, content = getSystemPrompt env message\<rparr>]
     @ conversationHistory
     @ [\<lparr>role = UserRole, content = message\<rparr>]"

definition requestBody ::
  "GrokServiceConfig \<Rightarrow> service_env \<Rightarrow> string \<Rightarrow> GrokMessage list \<Rightarrow> GrokRequest" where
  "requestBody cfg env message conversationHistory =
     \<lparr>model_r = model cfg,
      messages_r = requestMessages env message conversationHistory,
      max_tokens = 2000,
      stream = False\<rparr>"

definition sendMessage ::
  "GrokServiceConfig \<Rightarrow> service_env \<Rightarrow> string \<Rightarrow> GrokMessage list
     \<Rightarrow> (thrown + string) \<times> effect list" where
  "sendMessage cfg env message conversationHistory =
     (if useMockResponses cfg then (Inr (getMockResponse env message), [Sleep (mockDelay env)])
      else if apiKey cfg = [] \<or> apiKey cfg = ''REMOVED'' then
        (Inl (Error ''Grok API key not configured. Please set REACT_APP_GROK_API_KEY in your environment variables.''), [])
      else retryWithBackoff (\<lambda>k. attempt env (fetch env k)) (maxRetries cfg))"

text \<open>
  \<^verbatim>\<open>healthCheck\<close>: the probe is one \<open>sendMessage\<close> of \<^verbatim>\<open>'Hello'\<close> with an empty
  history; it never throws.
\<close>

definition healthCheck :: "GrokServiceConfig \<Rightarrow> service_env \<Rightarrow> bool \<times> effect list" where
  "healthCheck cfg env =
     (if useMockResponses cfg then (True, [])
      else (case sendMessage cfg env ''Hello'' [] of
              (Inr v, tr) \<Rightarrow> (True, tr)
            | (Inl e, tr) \<Rightarrow> (False, tr)))"

text \<open>
  The history handed to \<open>sendMessage\<close> by the thunk \<^verbatim>\<open>sendMessageToGrok\<close>:
  \<^verbatim>\<open>slice(-10)\<close>, then the filter on \<^verbatim>\<open>!msg.isLoading\<close>, then the mapping to
  the service's message format.
\<close>

definition toGrokMessage :: "IMessage \<Rightarrow> GrokMessage" where
  "toGrokMessage msg =
     \<lparr>role = (if sender_m msg = User then UserRole else AssistantRole),
      content = text_m msg\<rparr>"

definition notLoading :: "IMessage \<Rightarrow> bool" where
  "notLoading msg = (isLoading_m msg \<noteq> Some True)"

definition conversationHistory :: "IMessage list \<Rightarrow> GrokMessage list" where
  "conversationHistory msgs =
     map toGrokMessage (filter notLoading (drop (length msgs - 10) msgs))"

section \<open>Thunks of the store\<close>

text \<open>
  The reducers the slice registers for the life-cycle actions of its thunks
  (\<^verbatim>\<open>extraReducers\<close>).
\<close>

definition sendMessageToGrok_pending :: "ChatState \<Rightarrow> ChatState" where
  "sendMessageToGrok_pending s = s\<lparr>isLoading := True, isTyping := True, error := None\<rparr>"

definition sendMessageToGrok_fulfilled :: "IMessage \<Rightarrow> ChatState \<Rightarrow> ChatState" where
  "sendMessageToGrok_fulfilled payload s =
     s\<lparr>isLoading := False, isTyping := False, error := None,
       messages := messages s @ [payload]\<rparr>"

definition sendMessageToGrok_rejected :: "string \<Rightarrow> ChatState \<Rightarrow> ChatState" where
  "sendMessageToGrok_rejected payload s =
     s\<lparr>isLoading := False, isTyping := False, error := Some payload\<rparr>"

definition initializeChatSession_pending :: "ChatState \<Rightarrow> ChatState" where
  "initializeChatSession_pending s = s\<lparr>isLoading := True, error := None\<rparr>"

definition initializeChatSession_fulfilled :: "string \<times> bool \<Rightarrow> ChatState \<Rightarrow> ChatState" where
  "initializeChatSession_fulfilled payload s =
     s\<lparr>isLoading := False, sessionId := Some (fst payload), error := None\<rparr>"

definition initializeChatSession_rejected :: "string \<Rightarrow> ChatState \<Rightarrow> ChatState" where
  "initializeChatSession_rejected payload s = s\<lparr>isLoading := False, error := Some payload\<rparr>"

definition processMessageQueue_pending :: "ChatState \<Rightarrow> ChatState" where
  "processMessageQueue_pending s = s\<lparr>isProcessingQueue := True\<rparr>"

definition processMessageQueue_fulfilled :: "ChatState \<Rightarrow> ChatState" where
  "processMessageQueue_fulfilled s = s\<lparr>isProcessingQueue := False\<rparr>"

definition processMessageQueue_rejected :: "ChatState \<Rightarrow> ChatState" where
  "processMessageQueue_rejected s = s\<lparr>isProcessingQueue := False\<rparr>"

text \<open>
  \<^verbatim>\<open>initializeChatSession\<close>, from its dispatch to its last action, with the clock
  reading \<open>now\<close> of \<^verbatim>\<open>Date.now()\<close>: the pending reducer, the health check, and
  the fulfilled reducer on the payload \<^verbatim>\<open>{ sessionId, isHealthy }\<close>. The health
  check never throws, so the thunk never takes its \<^verbatim>\<open>rejectWithValue\<close> branch.
  The result is the new state and the trace of the probe.
\<close>

definition initializeChatSession ::
  "GrokServiceConfig \<Rightarrow> service_env \<Rightarrow> nat \<Rightarrow> ChatState \<Rightarrow> ChatState \<times> effect list" where
  "initializeChatSession cfg env now s =
     (let s1 = initializeChatSession_pending s;
          probe = healthCheck cfg env;
          isHealthy = fst probe;
          sid = ''session_'' @ toString now
      in (initializeChatSession_fulfilled (sid, isHealthy) s1, snd probe))"

text \<open>
  What \<^verbatim>\<open>sendMessageToGrok\<close> makes of the outcome of \<open>sendMessage\<close>: the assistant's
  message of its fulfilled action, or the error message of its rejected action
  (\<^verbatim>\<open>rejectWithValue\<close>).
\<close>

definition sendMessageToGrok_result ::
  "string \<Rightarrow> string \<Rightarrow> thrown + string \<Rightarrow> string + IMessage" where
  "sendMessageToGrok_result new_id now outcome =
     (case outcome of
        Inr responseText \<Rightarrow>
          Inr \<lparr>id_m = new_id, text_m = responseText, sender_m = Assistant,
               timestamp_m = now, isLoading_m = None\<rparr>
      | Inl (Error m) \<Rightarrow> Inl m
      | Inl Undefined \<Rightarrow> Inl ''Failed to send message to Grok API'')"

section \<open>Queue dispatcher\<close>

text \<open>
  The store together with the asynchronous work it has started. All code runs
  on one thread; a thunk runs without interruption from its dispatch to its
  first \<^verbatim>\<open>await\<close> of the network, and again from the settling of that promise to
  its last action. Between the two, other events are handled.

  \<^item> \<open>chat\<close> is the state of the slice.
  \<^item> \<open>inflight\<close> lists the calls of \<open>sendMessage\<close> that have not settled, each with
    its message and the history it was given. Each of them is awaited by one
    run of \<^verbatim>\<open>processMessageQueue\<close>: these are the active drains.
  \<^item> \<open>timers\<close> counts the \<^verbatim>\<open>setTimeout\<close> callbacks that will dispatch
    \<^verbatim>\<open>processMessageQueue\<close> and have not fired.
  \<^item> \<open>rendered\<close> is the state of the slice at the last rendering of the input
    component: its \<^verbatim>\<open>useAppSelector\<close> values, which the callback \<^verbatim>\<open>handleSend\<close>
    closes over until the component renders again.
\<close>

record system =
  chat :: ChatState
  inflight :: "(string \<times> GrokMessage list) list"
  timers :: nat
  rendered :: ChatState

definition initialSystem :: system where
  "initialSystem = \<lparr>chat = initialState, inflight = [], timers = 0, rendered = initialState\<rparr>"

text \<open>
  \<^verbatim>\<open>dispatch(processMessageQueue())\<close> up to the \<^verbatim>\<open>await\<close>: the pending reducer,
  the test of the queue, \<^verbatim>\<open>dequeueMessage\<close>, and the dispatch of
  \<^verbatim>\<open>sendMessageToGrok\<close> (its pending reducer, the history read from the state,
  the call of the service). With an empty queue the thunk returns at once and
  its fulfilled reducer runs.
\<close>

definition processMessageQueue_start :: "system \<Rightarrow> system" where
  "processMessageQueue_start sys =
     (let s1 = processMessageQueue_pending (chat sys)
      in if messageQueue s1 = [] then sys\<lparr>chat := processMessageQueue_fulfilled s1\<rparr>
         else
           (let nextMessage = hd (messageQueue s1);
                s2 = dequeueMessage s1;
                s3 = sendMessageToGrok_pending s2;
                history = conversationHistory (messages s3)
            in sys\<lparr>chat := s3, inflight := inflight sys @ [(nextMessage, history)]\<rparr>))"

text \<open>
  The \<open>i\<close>-th call in flight settles with \<open>outcome\<close>: the fulfilled or rejected
  reducer of \<^verbatim>\<open>sendMessageToGrok\<close>, then the rest of the run of
  \<^verbatim>\<open>processMessageQueue\<close> that awaited it: the test of the queue, the timer of
  500 ms for the next run, and its own fulfilled reducer. (\<^verbatim>\<open>dispatch\<close> of a thunk
  never rejects, so the \<^verbatim>\<open>catch\<close> of \<^verbatim>\<open>processMessageQueue\<close> is never entered.)
\<close>

definition processMessageQueue_resume ::
  "nat \<Rightarrow> string \<Rightarrow> string \<Rightarrow> thrown + string \<Rightarrow> system \<Rightarrow> system" where
  "processMessageQueue_resume i new_id now outcome sys =
     (if i < length (inflight sys) then
        (let s1 = (case sendMessageToGrok_result new_id now outcome of
                     Inr response \<Rightarrow> sendMessageToGrok_fulfilled response (chat sys)
                   | Inl errorMessage \<Rightarrow> sendMessageToGrok_rejected errorMessage (chat sys));
             t = (if messageQueue s1 \<noteq> [] then timers sys + 1 else timers sys)
         in sys\<lparr>chat := processMessageQueue_fulfilled s1,
                inflight := take i (inflight sys) @ drop (Suc i) (inflight sys),
                timers := t\<rparr>)
      else sys)"

definition timerFires :: "system \<Rightarrow> system" where
  "timerFires sys =
     (if timers sys = 0 then sys
      else processMessageQueue_start (sys\<lparr>timers := timers sys - 1\<rparr>))"

text \<open>
  \<^verbatim>\<open>handleSend\<close> of the input component, for the trimmed text \<open>messageText\<close>. The
  guards test \<^verbatim>\<open>isLoading\<close>, \<^verbatim>\<open>connectionStatus\<close> and \<^verbatim>\<open>isProcessingQueue\<close> as
  the component captured them at its last rendering; the dispatches act on the
  store as it is now.
\<close>

definition handleSend :: "string \<Rightarrow> string \<Rightarrow> string \<Rightarrow> system \<Rightarrow> system" where
  "handleSend new_id now messageText sys =
     (let r = rendered sys
      in if messageText \<noteq> [] \<and> \<not> isLoading r \<and> connectionStatus r \<noteq> Disconnected then
           (let sys1 = sys\<lparr>chat := enqueueMessage messageText
                                    (addUserMessage new_id now messageText (chat sys))\<rparr>
            in if \<not> isProcessingQueue r then processMessageQueue_start sys1 else sys1)
         else sys)"

text \<open>The component renders again and captures the store as it is now.\<close>

definition render :: "system \<Rightarrow> system" where
  "render sys = sys\<lparr>rendered := chat sys\<rparr>"

text \<open>The events of the system, and a run of a list of them.\<close>

datatype event =
    EnqueueMessage string
  | ProcessMessageQueue
  | Settle nat string string "thrown + string"
  | TimerFires
  | HandleSend string string string
  | Render

fun step :: "event \<Rightarrow> system \<Rightarrow> system" where
  "step (EnqueueMessage payload) sys = sys\<lparr>chat := enqueueMessage payload (chat sys)\<rparr>"
| "step ProcessMessageQueue sys = processMessageQueue_start sys"
| "step (Settle i new_id now outcome) sys = processMessageQueue_resume i new_id now outcome sys"
| "step TimerFires sys = timerFires sys"
| "step (HandleSend new_id now messageText) sys = handleSend new_id now messageText sys"
| "step Render sys = render sys"

definition run :: "event list \<Rightarrow> system \<Rightarrow> system" where
  "run es sys = fold step es sys"

text \<open>The events the user interface and the runtime produce: no bare dispatch.\<close>

fun fromInterface :: "event \<Rightarrow> bool" where
  "fromInterface (EnqueueMessage payload) = False"
| "fromInterface ProcessMessageQueue = False"
| "fromInterface (Settle i new_id now outcome) = True"
| "fromInterface TimerFires = True"
| "fromInterface (HandleSend new_id now messageText) = True"
| "fromInterface Render = True"

text \<open>
  The runs in which the component has rendered again before each submission:
  every \<open>HandleSend\<close> is the first event or comes directly after a \<open>Render\<close>.
  The flag says whether the rendering is up to date where the list starts.
\<close>

fun rendersBeforeSubmit :: "bool \<Rightarrow> event list \<Rightarrow> bool" where
  "rendersBeforeSubmit fresh [] = True"
| "rendersBeforeSubmit fresh (Render # es) = rendersBeforeSubmit True es"
| "rendersBeforeSubmit fresh (HandleSend new_id now messageText # es) =
     (fresh \<and> rendersBeforeSubmit False es)"
| "rendersBeforeSubmit fresh (e # es) = rendersBeforeSubmit False es"

text \<open>
  The states in which no drain or exactly one drain is active, nothing waits in
  the queue and no timer is set; with a drain active the store shows
  \<^verbatim>\<open>isLoading\<close> and \<^verbatim>\<open>isProcessingQueue\<close>, without one it does not show
  \<^verbatim>\<open>isProcessingQueue\<close>.
\<close>

definition singleDrain :: "system \<Rightarrow> bool" where
  "singleDrain sys =
     (messageQueue (chat sys) = [] \<and> timers sys = 0 \<and> length (inflight sys) \<le> 1
      \<and> (if inflight sys = [] then \<not> isProcessingQueue (chat sys)
          else isLoading (chat sys) \<and> isProcessingQueue (chat sys)))"

section \<open>Persistence store\<close>

text \<open>
  \<^verbatim>\<open>MessagePersistence\<close> keeps one entry of \<^verbatim>\<open>localStorage\<close>, a JSON text.

  \<^item> Times are milliseconds since the epoch (UTC). \<^verbatim>\<open>toISOString\<close> followed by
    \<^verbatim>\<open>new Date\<close> gives back the same instant, so \<^verbatim>\<open>lastUpdated\<close> is kept as the
    instant; it is \<open>None\<close> in a document whose field is missing or is no date
    (an invalid date compares false with everything).
  \<^item> \<^verbatim>\<open>JSON.parse\<close> of \<^verbatim>\<open>JSON.stringify\<close> of a snapshot is that snapshot
    (messages are strings and an optional boolean), so the entry is kept by what
    \<^verbatim>\<open>JSON.parse\<close> makes of it: the empty text, a text it rejects, the
    document \<^verbatim>\<open>null\<close>, or an object read as \<^verbatim>\<open>StoredChatData\<close>.
  \<^item> Each primitive of \<^verbatim>\<open>localStorage\<close> may throw (storage denied, quota
    exceeded); the flags of the storage say which do.
\<close>

record StoredChatData =
  messages_d :: "IMessage list"
  lastUpdated_d :: "int option"
  sessionId_d :: "string option"

datatype stored_text = EmptyText | Malformed | NullDocument | Document StoredChatData

record localStorage =
  item :: "stored_text option"
  getItem_throws :: bool
  setItem_throws :: bool
  removeItem_throws :: bool

definition MAX_STORED_MESSAGES :: nat where
  "MAX_STORED_MESSAGES = 100"

definition getItem :: "localStorage \<Rightarrow> thrown + stored_text option" where
  "getItem st = (if getItem_throws st then Inl (Error ''SecurityError'') else Inr (item st))"

definition setItem :: "stored_text \<Rightarrow> localStorage \<Rightarrow> thrown + localStorage" where
  "setItem v st =
     (if setItem_throws st then Inl (Error ''QuotaExceededError'') else Inr (st\<lparr>item := Some v\<rparr>))"

definition removeItem :: "localStorage \<Rightarrow> thrown + localStorage" where
  "removeItem st =
     (if removeItem_throws st then Inl (Error ''SecurityError'') else Inr (st\<lparr>item := None\<rparr>))"

text \<open>\<^verbatim>\<open>try { body } catch (error) { handler }\<close>.\<close>

definition try_catch :: "thrown + 'a \<Rightarrow> (thrown \<Rightarrow> thrown + 'a) \<Rightarrow> thrown + 'a" where
  "try_catch b handler = (case b of Inl e \<Rightarrow> handler e | Inr v \<Rightarrow> Inr v)"

definition dataToStore :: "int \<Rightarrow> IMessage list \<Rightarrow> string option \<Rightarrow> StoredChatData" where
  "dataToStore now msgs sid =
     \<lparr>messages_d = drop (length msgs - MAX_STORED_MESSAGES) msgs,
      lastUpdated_d = Some now,
      sessionId_d = sid\<rparr>"

definition saveMessages ::
  "int \<Rightarrow> IMessage list \<Rightarrow> string option \<Rightarrow> localStorage \<Rightarrow> thrown + localStorage" where
  "saveMessages now msgs sid st =
     try_catch (setItem (Document (dataToStore now msgs sid)) st) (\<lambda>e. Inr st)"

definition clearMessages :: "localStorage \<Rightarrow> thrown + localStorage" where
  "clearMessages st = try_catch (removeItem st) (\<lambda>e. Inr st)"

text \<open>
  The local time zone of the browser, as the language defines it for \<^verbatim>\<open>Date\<close>:
  the offset of local time from UTC in milliseconds, for an instant given in
  UTC (\<open>offsetAtUTC\<close>) and for a local time value (\<open>offsetAtLocal\<close>). The two
  differ around a change of the clock.
\<close>

record time_zone =
  offsetAtUTC :: "int \<Rightarrow> int"
  offsetAtLocal :: "int \<Rightarrow> int"

definition msPerDay :: int where
  "msPerDay = 24 * 60 * 60 * 1000"

text \<open>
  \<^verbatim>\<open>sevenDaysAgo.setDate(sevenDaysAgo.getDate() - 7)\<close> on \<^verbatim>\<open>new Date()\<close>: the
  instant is taken to local time, the day of the month is lowered by 7 (the
  date arithmetic of \<^verbatim>\<open>Date\<close> carries into the month and the year, which on
  local time values is the subtraction of seven times 24 hours), and the
  result is read back as a local time. This is the same local time of day
  seven calendar days earlier: 7 days before \<open>now\<close> when the clock did not
  change in between, an hour less or more when it did.
\<close>

definition sevenDaysAgo :: "time_zone \<Rightarrow> int \<Rightarrow> int" where
  "sevenDaysAgo tz now =
     (let localNow = now + offsetAtUTC tz now;
          localThen = localNow - 7 * msPerDay
      in localThen - offsetAtLocal tz localThen)"

definition stale :: "time_zone \<Rightarrow> int \<Rightarrow> StoredChatData \<Rightarrow> bool" where
  "stale tz now d = (case lastUpdated_d d of None \<Rightarrow> False | Some t \<Rightarrow> t < sevenDaysAgo tz now)"

definition loadMessages ::
  "time_zone \<Rightarrow> int \<Rightarrow> localStorage \<Rightarrow> thrown + (StoredChatData option \<times> localStorage)" where
  "loadMessages tz now st =
     try_catch
       (case getItem st of
          Inl e \<Rightarrow> Inl e
        | Inr None \<Rightarrow> Inr (None, st)
        | Inr (Some EmptyText) \<Rightarrow> Inr (None, st)
        | Inr (Some Malformed) \<Rightarrow> Inl (Error ''SyntaxError'')
        | Inr (Some NullDocument) \<Rightarrow> Inl (Error ''TypeError'')
        | Inr (Some (Document d)) \<Rightarrow>
            if stale tz now d then
              (case clearMessages st of Inl e \<Rightarrow> Inl e | Inr st' \<Rightarrow> Inr (None, st'))
            else Inr (Some d, st))
       (\<lambda>e. case clearMessages st of Inl e' \<Rightarrow> Inl e' | Inr st' \<Rightarrow> Inr (None, st'))"

text \<open>
  \<^verbatim>\<open>save\<close> at the instant \<open>t0\<close>, then \<^verbatim>\<open>load\<close> at the instant \<open>t1\<close> in the time
  zone \<open>tz\<close>.
\<close>

definition saveThenLoad ::
  "time_zone \<Rightarrow> int \<Rightarrow> IMessage list \<Rightarrow> string option \<Rightarrow> int \<Rightarrow> localStorage
     \<Rightarrow> thrown + StoredChatData option" where
  "saveThenLoad tz t0 msgs sid t1 st =
     (case saveMessages t0 msgs sid st of
        Inl e \<Rightarrow> Inl e
      | Inr st1 \<Rightarrow> (case loadMessages tz t1 st1 of Inl e \<Rightarrow> Inl e | Inr r \<Rightarrow> Inr (fst r)))"

section \<open>Sample inputs\<close>

text \<open>Concrete configurations, networks, queues and storages for the examples below.\<close>

definition liveConfig :: GrokServiceConfig where
  "liveConfig =
     \<lparr>apiKey = ''xai-0123'', apiUrl = ''https://api.x.ai/v1'', model = ''grok-beta'',
      timeout = 30000, maxRetries = 3, useMockResponses = False\<rparr>"

definition unauthorized :: "nat \<Rightarrow> fetch_result" where
  "unauthorized k =
     Response \<lparr>status = 401, statusText = ''Unauthorized'',
               body = ErrorBody (Some ''Incorrect API key provided'')\<rparr>"

definition unreachable :: "nat \<Rightarrow> fetch_result" where
  "unreachable k = Failed ''Failed to fetch''"

definition sampleEnv :: "(nat \<Rightarrow> fetch_result) \<Rightarrow> service_env" where
  "sampleEnv net =
     \<lparr>fetch = net,
      getSystemPrompt = (\<lambda>q. ''You are a knowledgeable blockchain and cryptocurrency expert assistant.''),
      getMockResponse = (\<lambda>q. ''Thank you for your question''),
      mockDelay = 1500,
      enhanceMarkdownFormatting = (\<lambda>c. c)\<rparr>"

definition alwaysRateLimited :: "nat \<Rightarrow> thrown + string" where
  "alwaysRateLimited k =
     Inl (Error ''Rate limit exceeded. Please wait a moment before sending another message.'')"

definition twoQueued :: system where
  "twoQueued = run [EnqueueMessage ''first'', EnqueueMessage ''second''] initialSystem"

definition sampleMessage :: IMessage where
  "sampleMessage =
     \<lparr>id_m = ''1700000000000abc'', text_m = ''What is a Merkle tree?'', sender_m = User,
      timestamp_m = ''2023-11-14T22:13:20.000Z'', isLoading_m = None\<rparr>"

definition sampleAnswer :: IMessage where
  "sampleAnswer =
     \<lparr>id_m = ''1700000002500xyz'', text_m = ''A tree of hashes.'', sender_m = Assistant,
      timestamp_m = ''2023-11-14T22:13:22.500Z'', isLoading_m = None\<rparr>"

definition loadingMessage :: IMessage where
  "loadingMessage =
     \<lparr>id_m = ''1700000003000pqr'', text_m = ''...'', sender_m = Assistant,
      timestamp_m = ''2023-11-14T22:13:23.000Z'', isLoading_m = Some True\<rparr>"

text \<open>
  Two time zones: UTC, and New York around the change to daylight-saving time of
  10 March 2024 (02:00 local time, 07:00 UTC; five hours behind UTC before it,
  four hours after).
\<close>

definition utc :: time_zone where
  "utc = \<lparr>offsetAtUTC = (\<lambda>t. 0), offsetAtLocal = (\<lambda>t. 0)\<rparr>"

definition newYork :: time_zone where
  "newYork =
     \<lparr>offsetAtUTC = (\<lambda>t. if t < 1710054000000 then - 18000000 else - 14400000),
      offsetAtLocal = (\<lambda>t. if t < 1710039600000 then - 18000000 else - 14400000)\<rparr>"

definition emptyStorage :: localStorage where
  "emptyStorage =
     \<lparr>item = None, getItem_throws = False, setItem_throws = False, removeItem_throws = False\<rparr>"

definition corruptStorage :: localStorage where
  "corruptStorage = emptyStorage\<lparr>item := Some Malformed\<rparr>"

section \<open>Lemmas on the retry loop\<close>

declare retryLoop.simps [simp del]

declare toString.simps [simp del]

lemma retryLoop_all_fail:
  "i \<le> budget \<Longrightarrow> \<forall>k. i \<le> k \<and> k \<le> budget \<longrightarrow> fn k = Inl (err k) \<Longrightarrow>
   retryLoop fn budget i lastError
     = (Inl (err budget), backoffTrace i (budget - i))"
proof (induction "budget - i" arbitrary: i lastError)
  case 0
  then have "i = budget" by simp
  with "0.prems" show ?case by (simp add: retryLoop.simps)
next
  case (Suc n)
  then have lt: "i < budget" and n: "n = budget - (i + 1)" by simp_all
  have d: "budget - i = Suc (budget - (i + 1))" using lt by simp
  have f: "fn i = Inl (err i)" using Suc.prems by simp
  have IH: "retryLoop fn budget (i + 1) (err i)
      = (Inl (err budget), backoffTrace (i + 1) (budget - (i + 1)))"
    using Suc.hyps(1)[OF n] lt Suc.prems(2) by simp
  show ?case
    by (subst retryLoop.simps) (use lt f IH d in simp)
qed

lemma attempts_backoffTrace: "attempts (backoffTrace k n) = Suc n"
  by (induction n arbitrary: k) (simp_all add: attempts_def)

lemma length_backoffTrace: "length (backoffTrace k n) = 2 * n + 1"
  by (induction n arbitrary: k) simp_all

lemma backoffTrace_nth_Call: "j \<le> n \<Longrightarrow> backoffTrace k n ! (2 * j) = Call (k + j)"
proof (induction n arbitrary: k j)
  case 0 then show ?case by simp
next
  case (Suc n)
  show ?case
  proof (cases j)
    case 0 then show ?thesis by simp
  next
    case (Suc j')
    with Suc.prems have "j' \<le> n" by simp
    from Suc.IH[OF this, of "Suc k"] Suc show ?thesis by simp
  qed
qed

lemma backoffTrace_nth_Sleep:
  "j < n \<Longrightarrow> backoffTrace k n ! (2 * j + 1) = Sleep (2 ^ (k + j) * 1000)"
proof (induction n arbitrary: k j)
  case 0 then show ?case by simp
next
  case (Suc n)
  show ?case
  proof (cases j)
    case 0 then show ?thesis by simp
  next
    case (Suc j')
    with Suc.prems have "j' < n" by simp
    from Suc.IH[OF this, of "Suc k"] Suc show ?thesis by simp
  qed
qed

lemma retryWithBackoff_all_fail:
  assumes "\<forall>k\<le>budget. fn k = Inl (err k)"
  shows "retryWithBackoff fn budget = (Inl (err budget), backoffTrace 0 budget)"
  using retryLoop_all_fail[of 0 budget fn err Undefined] assms
  by (simp add: retryWithBackoff_def)

section \<open>Retry budget and backoff\<close>

text \<open>
  C3. For every operation and every retry budget, when every attempt fails the
  executor makes exactly \<open>budget + 1\<close> attempts, waits \<open>2 ^ (k - 1) * 1000\<close> ms
  immediately before attempt \<open>k\<close> (for \<open>1 \<le> k\<close>; so 1 s, 2 s, 4 s, ...), does
  nothing else, and ends by throwing the error of the last attempt. The trace of
  such a run is \<open>Call 0, Sleep 1000, Call 1, Sleep 2000, ..., Call budget\<close>.
\<close>

theorem retryWithBackoff_exhausts_budget:
  assumes "\<forall>k\<le>budget. fn k = Inl (err k)"
  shows "retryWithBackoff fn budget = (Inl (err budget), backoffTrace 0 budget)
       \<and> attempts (snd (retryWithBackoff fn budget)) = budget + 1
       \<and> length (snd (retryWithBackoff fn budget)) = 2 * budget + 1
       \<and> snd (retryWithBackoff fn budget) ! 0 = Call 0
       \<and> (\<forall>k. 1 \<le> k \<and> k \<le> budget \<longrightarrow>
            snd (retryWithBackoff fn budget) ! (2 * k - 1) = Sleep (2 ^ (k - 1) * 1000)
          \<and> snd (retryWithBackoff fn budget) ! (2 * k) = Call k)"
proof -
  have r: "retryWithBackoff fn budget = (Inl (err budget), backoffTrace 0 budget)"
    by (rule retryWithBackoff_all_fail[OF assms])
  have sl: "backoffTrace 0 budget ! (2 * k - 1) = Sleep (2 ^ (k - 1) * 1000)"
    if "1 \<le> k" "k \<le> budget" for k
  proof -
    from that have "k - 1 < budget" and e: "2 * k - 1 = 2 * (k - 1) + 1" by simp_all
    from backoffTrace_nth_Sleep[OF this(1), of 0] e show ?thesis by simp
  qed
  have ca: "backoffTrace 0 budget ! (2 * k) = Call k" if "k \<le> budget" for k
    using backoffTrace_nth_Call[OF that, of 0] by simp
  show ?thesis
    unfolding r using sl ca ca[of 0]
    by (simp add: attempts_backoffTrace length_backoffTrace)
qed

theorem retryWithBackoff_exhausts_budget_witness:
  "retryWithBackoff alwaysRateLimited 3
     = (Inl (Error ''Rate limit exceeded. Please wait a moment before sending another message.''),
        [Call 0, Sleep 1000, Call 1, Sleep 2000, Call 2, Sleep 4000, Call 3])
   \<and> attempts (snd (retryWithBackoff alwaysRateLimited 3)) = 4"
proof -
  have h: "\<forall>k\<le>3. alwaysRateLimited k
      = Inl (Error ''Rate limit exceeded. Please wait a moment before sending another message.'')"
    by (simp add: alwaysRateLimited_def)
  have e: "backoffTrace 0 3 = [Call 0, Sleep 1000, Call 1, Sleep 2000, Call 2, Sleep 4000, Call 3]"
    by (simp add: numeral_3_eq_3)
  from retryWithBackoff_exhausts_budget[OF h] show ?thesis
    by (simp add: e attempts_def)
qed

section \<open>Failures that the caller cannot cure\<close>

lemma sendMessage_live:
  assumes "\<not> useMockResponses cfg" "apiKey cfg \<noteq> []" "apiKey cfg \<noteq> ''REMOVED''"
  shows "sendMessage cfg env message history
       = retryWithBackoff (\<lambda>k. attempt env (fetch env k)) (maxRetries cfg)"
  using assms by (simp add: sendMessage_def)

lemma unauthorized_attempt:
  "attempt (sampleEnv unauthorized) (fetch (sampleEnv unauthorized) k)
     = Inl (Error ''Invalid API key. Please check your Grok API configuration.'')"
  by (simp add: attempt_def sampleEnv_def unauthorized_def userMessage_def)

text \<open>
  C1 (as the code has it). The executor does not look at the kind of failure:
  \<open>retryWithBackoff\<close> retries every rejection alike. When the client is live
  (no offline responder, an API key set) and every \<^verbatim>\<open>fetch\<close> up to the budget
  answers with a status outside 200..299 (401 and 403 among them), \<open>sendMessage\<close>
  makes \<open>maxRetries + 1\<close> attempts with the backoff waits between them, and
  then throws the error of the last response. One attempt is made only with a
  budget of 0.
\<close>

theorem sendMessage_retries_every_failure:
  assumes "\<not> useMockResponses cfg" "apiKey cfg \<noteq> []" "apiKey cfg \<noteq> ''REMOVED''"
    and "\<forall>k\<le>maxRetries cfg. \<exists>r. fetch env k = Response r \<and> \<not> (200 \<le> status r \<and> status r \<le> 299)"
  shows "snd (sendMessage cfg env message history) = backoffTrace 0 (maxRetries cfg)
       \<and> attempts (snd (sendMessage cfg env message history)) = maxRetries cfg + 1
       \<and> (\<exists>r. fetch env (maxRetries cfg) = Response r
              \<and> fst (sendMessage cfg env message history) = Inl (Error (userMessage r)))"
proof -
  define err where "err k = Error (userMessage (case fetch env k of Response r \<Rightarrow> r))" for k
  have f: "\<forall>k\<le>maxRetries cfg. attempt env (fetch env k) = Inl (err k)"
  proof (intro allI impI)
    fix k assume "k \<le> maxRetries cfg"
    with assms(4) obtain r where "fetch env k = Response r" "\<not> (200 \<le> status r \<and> status r \<le> 299)"
      by blast
    then show "attempt env (fetch env k) = Inl (err k)"
      by (simp add: attempt_def err_def)
  qed
  have r: "sendMessage cfg env message history = (Inl (err (maxRetries cfg)), backoffTrace 0 (maxRetries cfg))"
    unfolding sendMessage_live[OF assms(1-3)]
    by (rule retryWithBackoff_all_fail[OF f])
  from assms(4) obtain r0 where r0: "fetch env (maxRetries cfg) = Response r0" by blast
  show ?thesis
    unfolding r using r0 by (simp add: attempts_backoffTrace err_def)
qed

theorem sendMessage_retries_every_failure_witness:
  "attempts (snd (sendMessage liveConfig (sampleEnv unauthorized) ''hello'' [])) = 3 + 1
   \<and> fst (sendMessage liveConfig (sampleEnv unauthorized) ''hello'' [])
       = Inl (Error ''Invalid API key. Please check your Grok API configuration.'')"
proof -
  have h: "\<forall>k\<le>maxRetries liveConfig. \<exists>r. fetch (sampleEnv unauthorized) k = Response r
              \<and> \<not> (200 \<le> status r \<and> status r \<le> 299)"
    by (simp add: sampleEnv_def unauthorized_def)
  have c: "\<not> useMockResponses liveConfig" "apiKey liveConfig \<noteq> []" "apiKey liveConfig \<noteq> ''REMOVED''"
    by (simp_all add: liveConfig_def)
  from sendMessage_retries_every_failure[OF c h, of "''hello''" "[]"] show ?thesis
    by (auto simp: liveConfig_def sampleEnv_def unauthorized_def userMessage_def)
qed

text \<open>
  The claim itself fails: with the default budget of 3 a service that answers 401
  to every request is asked 4 times, not once.
\<close>

theorem unauthorized_is_retried:
  "attempts (snd (sendMessage liveConfig (sampleEnv unauthorized) ''hello'' [])) = 4
   \<and> attempts (snd (sendMessage liveConfig (sampleEnv unauthorized) ''hello'' [])) \<noteq> 1"
proof -
  have "sendMessage liveConfig (sampleEnv unauthorized) ''hello'' []
      = retryWithBackoff (\<lambda>k. attempt (sampleEnv unauthorized) (fetch (sampleEnv unauthorized) k)) 3"
    by (simp add: sendMessage_def liveConfig_def)
  also have "\<dots> = (Inl (Error ''Invalid API key. Please check your Grok API configuration.''),
                   backoffTrace 0 3)"
    by (rule retryWithBackoff_all_fail) (simp add: unauthorized_attempt)
  finally show ?thesis by (simp add: attempts_backoffTrace)
qed

section \<open>The request's message list\<close>

lemma length_conversationHistory: "length (conversationHistory msgs) \<le> 10"
proof -
  have "length (filter notLoading (drop (length msgs - 10) msgs)) \<le> length (drop (length msgs - 10) msgs)"
    by (rule length_filter_le)
  then show ?thesis by (simp add: conversationHistory_def)
qed

text \<open>
  C5 (as the code has it). For every message history and every new user message
  the message list of the request is: the system message; then those of the
  last 10 messages of the history that are not loading, oldest first, each with
  the role of its sender (\<^verbatim>\<open>user\<close> for the user, \<^verbatim>\<open>assistant\<close> otherwise) and
  its text as content; then the new user message. The history is cut to its
  last 10 messages before the loading ones are left out, so at most 10 entries
  are sent, and exactly the last 10 messages when none of them is loading.
  Nothing stands for the older messages: the list has at most 12 entries.
\<close>

theorem requestMessages_history:
  "requestMessages env message (conversationHistory msgs)
     = \<lparr>role = SystemRole, content = getSystemPrompt env message\<rparr>
       # map (\<lambda>m. \<lparr>role = (if sender_m m = User then UserRole else AssistantRole),
                    content = text_m m\<rparr>)
           (filter (\<lambda>m. isLoading_m m \<noteq> Some True) (drop (length msgs - 10) msgs))
       @ [\<lparr>role = UserRole, content = message\<rparr>]
   \<and> messages_r (requestBody cfg env message (conversationHistory msgs))
     = requestMessages env message (conversationHistory msgs)
   \<and> length (conversationHistory msgs) \<le> 10
   \<and> length (requestMessages env message (conversationHistory msgs)) \<le> 12
   \<and> ((\<forall>m\<in>set (drop (length msgs - 10) msgs). isLoading_m m \<noteq> Some True) \<longrightarrow>
        conversationHistory msgs
          = map (\<lambda>m. \<lparr>role = (if sender_m m = User then UserRole else AssistantRole),
                       content = text_m m\<rparr>)
              (drop (length msgs - 10) msgs))"
proof -
  have h: "conversationHistory msgs
      = map (\<lambda>m. \<lparr>role = (if sender_m m = User then UserRole else AssistantRole),
                   content = text_m m\<rparr>)
          (filter (\<lambda>m. isLoading_m m \<noteq> Some True) (drop (length msgs - 10) msgs))"
    by (simp add: conversationHistory_def toGrokMessage_def[abs_def] notLoading_def[abs_def])
  have a: "filter (\<lambda>m. isLoading_m m \<noteq> Some True) (drop (length msgs - 10) msgs)
         = drop (length msgs - 10) msgs"
    if "\<forall>m\<in>set (drop (length msgs - 10) msgs). isLoading_m m \<noteq> Some True"
    using that by (simp add: filter_id_conv)
  have l: "length (requestMessages env message (conversationHistory msgs)) \<le> 12"
    using length_conversationHistory[of msgs] by (simp add: requestMessages_def)
  show ?thesis
    using l length_conversationHistory[of msgs] a
    by (simp add: requestMessages_def requestBody_def h)
qed

theorem requestMessages_history_witness:
  "requestMessages (sampleEnv unreachable) ''And a Merkle proof?''
       (conversationHistory [sampleMessage, sampleAnswer])
     = [\<lparr>role = SystemRole,
         content = ''You are a knowledgeable blockchain and cryptocurrency expert assistant.''\<rparr>,
        \<lparr>role = UserRole, content = ''What is a Merkle tree?''\<rparr>,
        \<lparr>role = AssistantRole, content = ''A tree of hashes.''\<rparr>,
        \<lparr>role = UserRole, content = ''And a Merkle proof?''\<rparr>]
   \<and> conversationHistory [sampleMessage, sampleAnswer]
     = [\<lparr>role = UserRole, content = ''What is a Merkle tree?''\<rparr>,
        \<lparr>role = AssistantRole, content = ''A tree of hashes.''\<rparr>]"
proof -
  have n: "\<forall>m\<in>set (drop (length [sampleMessage, sampleAnswer] - 10) [sampleMessage, sampleAnswer]).
             isLoading_m m \<noteq> Some True"
    by (simp add: sampleMessage_def sampleAnswer_def)
  from requestMessages_history
         [of "sampleEnv unreachable" "''And a Merkle proof?''" "[sampleMessage, sampleAnswer]" liveConfig] n
  show ?thesis
    by (simp add: sampleMessage_def sampleAnswer_def sampleEnv_def requestMessages_def
        conversationHistory_def toGrokMessage_def notLoading_def)
qed

text \<open>
  The claim itself fails when a loading message is among the last 10: of ten
  messages followed by one loading message the request carries nine, although
  the history has ten messages that are not loading.
\<close>

theorem loading_message_shortens_history:
  "conversationHistory (replicate 10 sampleMessage @ [loadingMessage])
     = replicate 9 \<lparr>role = UserRole, content = ''What is a Merkle tree?''\<rparr>
   \<and> filter (\<lambda>m. isLoading_m m \<noteq> Some True) (replicate 10 sampleMessage @ [loadingMessage])
     = replicate 10 sampleMessage
   \<and> length (conversationHistory (replicate 10 sampleMessage @ [loadingMessage])) = 9"
proof -
  have d: "drop (length (replicate 10 sampleMessage @ [loadingMessage]) - 10)
             (replicate 10 sampleMessage @ [loadingMessage])
         = replicate 9 sampleMessage @ [loadingMessage]"
    by (simp add: drop_replicate)
  have c: "conversationHistory (replicate 10 sampleMessage @ [loadingMessage])
     = replicate 9 \<lparr>role = UserRole, content = ''What is a Merkle tree?''\<rparr>"
    unfolding conversationHistory_def d
    by (simp add: notLoading_def toGrokMessage_def sampleMessage_def loadingMessage_def)
  show ?thesis
    unfolding c by (simp add: sampleMessage_def loadingMessage_def)
qed

section \<open>Session bootstrapper\<close>

text \<open>
  C4 (as the code has it). The bootstrapper issues one health probe (nothing
  when the offline responder is configured, else one \<open>sendMessage\<close> of
  \<^verbatim>\<open>'Hello'\<close>), stores the session identifier \<^verbatim>\<open>session_\<close> followed by the clock
  reading, and clears \<^verbatim>\<open>isLoading\<close> and the error, so that a failed probe does not
  block the start. The result of the probe travels in the payload of the
  fulfilled action, but no reducer reads it: \<open>connectionStatus\<close> keeps the value
  it had, whatever the probe found.
\<close>

theorem initializeChatSession_effect:
  "connectionStatus (fst (initializeChatSession cfg env now s)) = connectionStatus s
   \<and> sessionId (fst (initializeChatSession cfg env now s)) = Some (''session_'' @ toString now)
   \<and> fst (initializeChatSession cfg env now s)
       = s\<lparr>isLoading := False, error := None, sessionId := Some (''session_'' @ toString now)\<rparr>
   \<and> snd (initializeChatSession cfg env now s)
       = (if useMockResponses cfg then [] else snd (sendMessage cfg env ''Hello'' []))"
  by (simp add: initializeChatSession_def Let_def initializeChatSession_pending_def
      initializeChatSession_fulfilled_def healthCheck_def split: prod.splits sum.splits)

lemma unreachable_attempt:
  "attempt (sampleEnv unreachable) (fetch (sampleEnv unreachable) k) = Inl (Error ''Failed to fetch'')"
  by (simp add: attempt_def sampleEnv_def unreachable_def)

lemma sendMessage_unreachable:
  "sendMessage liveConfig (sampleEnv unreachable) message history
     = (Inl (Error ''Failed to fetch''), backoffTrace 0 3)"
proof -
  have "sendMessage liveConfig (sampleEnv unreachable) message history
      = retryWithBackoff (\<lambda>k. attempt (sampleEnv unreachable) (fetch (sampleEnv unreachable) k)) 3"
    by (simp add: sendMessage_def liveConfig_def)
  also have "\<dots> = (Inl (Error ''Failed to fetch''), backoffTrace 0 3)"
    by (rule retryWithBackoff_all_fail) (simp add: unreachable_attempt)
  finally show ?thesis .
qed

text \<open>
  The claim itself fails: with a network that rejects every request the probe
  reports failure, and the session still shows \<open>Connected\<close>.
\<close>

theorem failed_probe_leaves_connected:
  "fst (healthCheck liveConfig (sampleEnv unreachable)) = False
   \<and> connectionStatus (fst (initializeChatSession liveConfig (sampleEnv unreachable) 1700000000000 initialState))
       = Connected
   \<and> connectionStatus (fst (initializeChatSession liveConfig (sampleEnv unreachable) 1700000000000 initialState))
       \<noteq> Disconnected"
proof -
  have h: "healthCheck liveConfig (sampleEnv unreachable) = (False, backoffTrace 0 3)"
    by (simp add: healthCheck_def sendMessage_unreachable) (simp add: liveConfig_def)
  show ?thesis
    by (simp add: h initializeChatSession_def Let_def initializeChatSession_pending_def
        initializeChatSession_fulfilled_def initialState_def)
qed

section \<open>One drain at a time\<close>

lemmas dispatch_defs =
  run_def initialSystem_def initialState_def enqueueMessage_def addUserMessage_def
  dequeueMessage_def processMessageQueue_start_def processMessageQueue_resume_def
  processMessageQueue_pending_def processMessageQueue_fulfilled_def
  sendMessageToGrok_pending_def sendMessageToGrok_fulfilled_def sendMessageToGrok_rejected_def
  sendMessageToGrok_result_def timerFires_def handleSend_def render_def conversationHistory_def
  toGrokMessage_def notLoading_def Let_def

lemma singleDrain_initial: "singleDrain initialSystem"
  by (simp add: singleDrain_def initialSystem_def initialState_def)

lemma singleDrain_handleSend:
  assumes "singleDrain sys" "rendered sys = chat sys"
  shows "singleDrain (handleSend new_id now messageText sys)"
proof (cases "messageText \<noteq> [] \<and> \<not> isLoading (chat sys) \<and> connectionStatus (chat sys) \<noteq> Disconnected")
  case False
  then show ?thesis using assms by (auto simp: handleSend_def Let_def)
next
  case True
  with assms have nf: "inflight sys = []" and np: "\<not> isProcessingQueue (chat sys)"
    and q: "messageQueue (chat sys) = []" and t: "timers sys = 0"
    by (auto simp: singleDrain_def split: if_splits)
  show ?thesis
    using True nf np q t assms(2)
    by (simp add: handleSend_def Let_def processMessageQueue_start_def enqueueMessage_def
        addUserMessage_def processMessageQueue_pending_def dequeueMessage_def
        sendMessageToGrok_pending_def singleDrain_def)
qed

lemma singleDrain_resume:
  assumes "singleDrain sys"
  shows "singleDrain (processMessageQueue_resume i new_id now outcome sys)"
proof (cases "i < length (inflight sys)")
  case False
  then show ?thesis using assms by (simp add: processMessageQueue_resume_def)
next
  case True
  with assms have i: "i = 0" and l: "length (inflight sys) = 1"
    and q: "messageQueue (chat sys) = []" and t: "timers sys = 0"
    by (auto simp: singleDrain_def split: if_splits)
  show ?thesis
    using i l q t
    by (simp add: processMessageQueue_resume_def Let_def singleDrain_def
        processMessageQueue_fulfilled_def sendMessageToGrok_fulfilled_def
        sendMessageToGrok_rejected_def split: sum.splits)
qed

lemma singleDrain_timerFires:
  assumes "singleDrain sys"
  shows "singleDrain (timerFires sys)"
  using assms by (simp add: timerFires_def singleDrain_def)

lemma singleDrain_render: "singleDrain (render sys) = singleDrain sys"
  by (simp add: render_def singleDrain_def)

lemma singleDrain_run:
  assumes "singleDrain sys" "fresh \<longrightarrow> rendered sys = chat sys"
    and "\<forall>e\<in>set es. fromInterface e" "rendersBeforeSubmit fresh es"
  shows "singleDrain (fold step es sys)"
  using assms
proof (induction es arbitrary: sys fresh)
  case Nil
  then show ?case by simp
next
  case (Cons e es)
  show ?case
  proof (cases e)
    case (EnqueueMessage payload)
    with Cons.prems show ?thesis by simp
  next
    case ProcessMessageQueue
    with Cons.prems show ?thesis by simp
  next
    case (Settle i new_id now outcome)
    have "singleDrain (step e sys)"
      using Settle Cons.prems(1) by (simp add: singleDrain_resume)
    from Cons.IH[OF this, of False] Cons.prems Settle show ?thesis by simp
  next
    case TimerFires
    have "singleDrain (step e sys)"
      using TimerFires Cons.prems(1) by (simp add: singleDrain_timerFires)
    from Cons.IH[OF this, of False] Cons.prems TimerFires show ?thesis by simp
  next
    case (HandleSend new_id now messageText)
    with Cons.prems have "rendered sys = chat sys" by simp
    then have "singleDrain (step e sys)"
      using HandleSend Cons.prems(1) by (simp add: singleDrain_handleSend)
    from Cons.IH[OF this, of False] Cons.prems HandleSend show ?thesis by simp
  next
    case Render
    have s: "singleDrain (step e sys)"
      using Render Cons.prems(1) by (simp add: singleDrain_render)
    have r: "True \<longrightarrow> rendered (step e sys) = chat (step e sys)"
      using Render by (simp add: render_def)
    from Cons.IH[OF s r] Cons.prems Render show ?thesis by simp
  qed
qed

text \<open>
  C2 (as the code has it). \<^verbatim>\<open>processMessageQueue\<close> has no guard of its own; the
  guards are in the submit handler, which tests \<^verbatim>\<open>isLoading\<close> and
  \<^verbatim>\<open>isProcessingQueue\<close> as captured at the last rendering of the component.
  For every sequence of submissions, renderings, settled sends and timer
  callbacks from the initial state in which the component has rendered again
  before each submission (every submission is the first event or directly
  follows a rendering), at most one send is in flight, the queue is empty
  between events, no timer is pending, and the store shows
  \<^verbatim>\<open>isProcessingQueue\<close> exactly while a send is in flight.
\<close>

theorem guarded_submit_single_drain:
  assumes "\<forall>e\<in>set es. fromInterface e" "rendersBeforeSubmit True es"
  shows "length (inflight (run es initialSystem)) \<le> 1
       \<and> messageQueue (chat (run es initialSystem)) = []
       \<and> timers (run es initialSystem) = 0
       \<and> isProcessingQueue (chat (run es initialSystem)) = (inflight (run es initialSystem) \<noteq> [])"
proof -
  have r: "True \<longrightarrow> rendered initialSystem = chat initialSystem"
    by (simp add: initialSystem_def)
  have "singleDrain (run es initialSystem)"
    unfolding run_def by (rule singleDrain_run[OF singleDrain_initial r assms])
  then show ?thesis
    by (auto simp: singleDrain_def split: if_splits)
qed

theorem guarded_submit_single_drain_witness:
  "length (inflight (run [HandleSend ''m1'' ''t1'' ''hello'', Render,
                          HandleSend ''m2'' ''t2'' ''again'',
                          Settle 0 ''a1'' ''t3'' (Inr ''hi''), Render,
                          HandleSend ''m3'' ''t4'' ''more''] initialSystem)) \<le> 1
   \<and> map fst (inflight (run [HandleSend ''m1'' ''t1'' ''hello'', Render,
                          HandleSend ''m2'' ''t2'' ''again'',
                          Settle 0 ''a1'' ''t3'' (Inr ''hi''), Render,
                          HandleSend ''m3'' ''t4'' ''more''] initialSystem)) = [''more'']
   \<and> map text_m (messages (chat (run [HandleSend ''m1'' ''t1'' ''hello'', Render,
                          HandleSend ''m2'' ''t2'' ''again'',
                          Settle 0 ''a1'' ''t3'' (Inr ''hi''), Render,
                          HandleSend ''m3'' ''t4'' ''more''] initialSystem)))
       = [''hello'', ''hi'', ''more'']"
proof -
  have h: "\<forall>e\<in>set [HandleSend ''m1'' ''t1'' ''hello'', Render,
                          HandleSend ''m2'' ''t2'' ''again'',
                          Settle 0 ''a1'' ''t3'' (Inr ''hi''), Render,
                          HandleSend ''m3'' ''t4'' ''more'']. fromInterface e"
    by simp
  have f: "rendersBeforeSubmit True [HandleSend ''m1'' ''t1'' ''hello'', Render,
                          HandleSend ''m2'' ''t2'' ''again'',
                          Settle 0 ''a1'' ''t3'' (Inr ''hi''), Render,
                          HandleSend ''m3'' ''t4'' ''more'']"
    by simp
  from guarded_submit_single_drain[OF h f]
  show ?thesis
    by (simp add: dispatch_defs)
qed

text \<open>
  The claim itself fails: the operation dispatched twice with two messages
  queued starts two sends, both in flight at once.
\<close>

theorem two_dispatches_two_drains:
  "map fst (inflight (run [EnqueueMessage ''first'', EnqueueMessage ''second'',
                   ProcessMessageQueue, ProcessMessageQueue] initialSystem))
     = [''first'', ''second'']
   \<and> length (inflight (run [EnqueueMessage ''first'', EnqueueMessage ''second'',
                   ProcessMessageQueue, ProcessMessageQueue] initialSystem)) = 2
   \<and> \<not> length (inflight (run [EnqueueMessage ''first'', EnqueueMessage ''second'',
                   ProcessMessageQueue, ProcessMessageQueue] initialSystem)) \<le> 1"
  by (simp add: dispatch_defs)

text \<open>
  The rendering matters: two submissions with no rendering between them both
  pass the guards of the handler, and two sends are in flight.
\<close>

lemma stale_rendering_two_sends:
  "map fst (inflight (run [HandleSend ''m1'' ''t1'' ''hello'',
                           HandleSend ''m2'' ''t2'' ''again''] initialSystem))
     = [''hello'', ''again'']"
  by (simp add: dispatch_defs)

section \<open>A failed item is not sent again\<close>

text \<open>
  C6. For every drain step on a queue \<open>x # xs\<close>: the front item \<open>x\<close> leaves the
  queue when the drain starts, before its send is in flight. When that send
  fails for good, the failure's message becomes the error of the state, the
  loading flags are cleared, the queue is still \<open>xs\<close> (the item is not put
  back, and no settled send ever changes the queue), and no message is added.
  With \<open>xs\<close> empty the dispatcher is idle again: no timer is set. Otherwise a
  timer is set, and when it fires the next item \<open>hd xs\<close> is taken from the queue
  and sent.
\<close>

theorem failed_item_not_requeued:
  assumes "messageQueue (chat sys) = x # xs"
  shows "let sys1 = step ProcessMessageQueue sys;
             sys2 = step (Settle (length (inflight sys)) new_id now (Inl e)) sys1;
             sys3 = step TimerFires sys2
         in messageQueue (chat sys1) = xs
          \<and> inflight sys1 = inflight sys @ [(x, conversationHistory (messages (chat sys)))]
          \<and> messageQueue (chat sys2) = xs
          \<and> error (chat sys2) = Some (case e of Error m \<Rightarrow> m
                                       | Undefined \<Rightarrow> ''Failed to send message to Grok API'')
          \<and> \<not> isLoading (chat sys2) \<and> \<not> isTyping (chat sys2)
          \<and> \<not> isProcessingQueue (chat sys2)
          \<and> messages (chat sys2) = messages (chat sys)
          \<and> inflight sys2 = inflight sys
          \<and> timers sys2 = (if xs = [] then timers sys else timers sys + 1)
          \<and> (xs \<noteq> [] \<longrightarrow>
                messageQueue (chat sys3) = tl xs
              \<and> inflight sys3 = inflight sys @ [(hd xs, conversationHistory (messages (chat sys)))]
              \<and> timers sys3 = timers sys)
          \<and> messageQueue (chat (step (Settle i new_id now (Inl e)) sys')) = messageQueue (chat sys')"
  using assms
  by (cases xs; cases e) (simp_all add: dispatch_defs)

theorem failed_item_not_requeued_witness:
  "messageQueue (chat (step ProcessMessageQueue twoQueued)) = [''second'']
   \<and> map fst (inflight (step ProcessMessageQueue twoQueued)) = [''first'']
   \<and> error (chat (run [ProcessMessageQueue, Settle 0 ''r1'' ''t1'' (Inl (Error ''Request timeout''))]
                    twoQueued)) = Some ''Request timeout''
   \<and> messageQueue (chat (run [ProcessMessageQueue, Settle 0 ''r1'' ''t1'' (Inl (Error ''Request timeout''))]
                    twoQueued)) = [''second'']
   \<and> map fst (inflight (run [ProcessMessageQueue, Settle 0 ''r1'' ''t1'' (Inl (Error ''Request timeout'')),
                    TimerFires] twoQueued)) = [''second'']"
proof -
  have q: "messageQueue (chat twoQueued) = [''first'', ''second'']"
    and f: "inflight twoQueued = []"
    by (simp_all add: twoQueued_def dispatch_defs)
  from failed_item_not_requeued[OF q, of "''r1''" "''t1''" "Error ''Request timeout''"]
  show ?thesis
    by (simp add: Let_def run_def f)
qed

section \<open>Persistence: what is stored and what comes back\<close>

lemma clearMessages_total:
  "clearMessages st = Inr (if removeItem_throws st then st else st\<lparr>item := None\<rparr>)"
  by (simp add: clearMessages_def removeItem_def try_catch_def)

lemma saveMessages_total:
  "saveMessages now msgs sid st
     = Inr (if setItem_throws st then st else st\<lparr>item := Some (Document (dataToStore now msgs sid))\<rparr>)"
  by (simp add: saveMessages_def setItem_def try_catch_def)

lemma loadMessages_cases:
  "loadMessages tz now st =
     (if getItem_throws st then Inr (None, if removeItem_throws st then st else st\<lparr>item := None\<rparr>)
      else case item st of
             None \<Rightarrow> Inr (None, st)
           | Some EmptyText \<Rightarrow> Inr (None, st)
           | Some Malformed \<Rightarrow> Inr (None, if removeItem_throws st then st else st\<lparr>item := None\<rparr>)
           | Some NullDocument \<Rightarrow> Inr (None, if removeItem_throws st then st else st\<lparr>item := None\<rparr>)
           | Some (Document d) \<Rightarrow>
               if stale tz now d then Inr (None, if removeItem_throws st then st else st\<lparr>item := None\<rparr>)
               else Inr (Some d, st))"
  by (simp add: loadMessages_def getItem_def try_catch_def clearMessages_total
      split: option.splits stored_text.splits)

lemma saveThenLoad_eq:
  assumes "\<not> setItem_throws st" "\<not> getItem_throws st"
  shows "saveThenLoad tz t0 msgs sid t1 st
       = Inr (if t0 < sevenDaysAgo tz t1 then None else Some (dataToStore t0 msgs sid))"
  using assms
  by (simp add: saveThenLoad_def saveMessages_total loadMessages_cases stale_def dataToStore_def)

lemma sevenDaysAgo_utc: "sevenDaysAgo utc t = t - 604800000"
  by (simp add: sevenDaysAgo_def utc_def msPerDay_def)

text \<open>
  C8 (as the code has it). On a storage that accepts the write and the read,
  \<^verbatim>\<open>save\<close> followed by \<^verbatim>\<open>load\<close> returns the last 100 of the messages saved, the
  instant of the save and the same session identifier, unless the save is
  earlier than the same local time of day seven calendar days before the load;
  then \<^verbatim>\<open>load\<close> returns \<^verbatim>\<open>null\<close>. For a list of at most 100 messages the messages
  returned are exactly those saved. When the local clock keeps the same offset
  from UTC over those seven days, the limit is 7 days to the millisecond: the
  snapshot comes back up to 7 days after the save, and \<^verbatim>\<open>null\<close> after more.
\<close>

theorem save_then_load_round_trip:
  assumes "\<not> setItem_throws st" "\<not> getItem_throws st"
  shows "saveThenLoad tz t0 msgs sid t1 st
           = Inr (if t0 < sevenDaysAgo tz t1 then None
                  else Some \<lparr>messages_d = drop (length msgs - 100) msgs,
                             lastUpdated_d = Some t0, sessionId_d = sid\<rparr>)
       \<and> (sevenDaysAgo tz t1 \<le> t0 \<and> length msgs \<le> 100 \<longrightarrow>
            saveThenLoad tz t0 msgs sid t1 st
              = Inr (Some \<lparr>messages_d = msgs, lastUpdated_d = Some t0, sessionId_d = sid\<rparr>))
       \<and> (offsetAtLocal tz (t1 + offsetAtUTC tz t1 - 604800000) = offsetAtUTC tz t1 \<longrightarrow>
            sevenDaysAgo tz t1 = t1 - 604800000
          \<and> (t1 - t0 \<le> 604800000 \<longrightarrow>
               saveThenLoad tz t0 msgs sid t1 st
                 = Inr (Some \<lparr>messages_d = drop (length msgs - 100) msgs,
                              lastUpdated_d = Some t0, sessionId_d = sid\<rparr>))
          \<and> (t1 - t0 \<le> 604800000 \<and> length msgs \<le> 100 \<longrightarrow>
               saveThenLoad tz t0 msgs sid t1 st
                 = Inr (Some \<lparr>messages_d = msgs, lastUpdated_d = Some t0, sessionId_d = sid\<rparr>))
          \<and> (604800000 < t1 - t0 \<longrightarrow> saveThenLoad tz t0 msgs sid t1 st = Inr None))"
proof -
  have e: "saveThenLoad tz t0 msgs sid t1 st
           = Inr (if t0 < sevenDaysAgo tz t1 then None
                  else Some \<lparr>messages_d = drop (length msgs - 100) msgs,
                             lastUpdated_d = Some t0, sessionId_d = sid\<rparr>)"
    using saveThenLoad_eq[OF assms, of tz t0 msgs sid t1]
    by (simp add: dataToStore_def MAX_STORED_MESSAGES_def)
  have s: "sevenDaysAgo tz t1 = t1 - 604800000"
    if "offsetAtLocal tz (t1 + offsetAtUTC tz t1 - 604800000) = offsetAtUTC tz t1"
    using that by (simp add: sevenDaysAgo_def Let_def msPerDay_def)
  show ?thesis
    unfolding e using s by auto
qed

theorem save_then_load_round_trip_witness:
  "saveThenLoad utc 1700000000000 [sampleMessage, sampleAnswer] (Some ''session_1700000000000'')
       1700600000000 emptyStorage
     = Inr (Some \<lparr>messages_d = [sampleMessage, sampleAnswer], lastUpdated_d = Some 1700000000000,
                  sessionId_d = Some ''session_1700000000000''\<rparr>)
   \<and> saveThenLoad utc 1700000000000 [sampleMessage, sampleAnswer] (Some ''session_1700000000000'')
       1700604800001 emptyStorage
     = Inr None
   \<and> saveThenLoad newYork 1709485200000 [sampleMessage, sampleAnswer] None 1710086400000 emptyStorage
     = Inr (Some \<lparr>messages_d = [sampleMessage, sampleAnswer], lastUpdated_d = Some 1709485200000,
                  sessionId_d = None\<rparr>)
   \<and> saveThenLoad newYork 1709483400000 [sampleMessage, sampleAnswer] None 1710086400000 emptyStorage
     = Inr None"
proof -
  have h: "\<not> setItem_throws emptyStorage" "\<not> getItem_throws emptyStorage"
    by (simp_all add: emptyStorage_def)
  have u: "offsetAtLocal utc (t + offsetAtUTC utc t - 604800000) = offsetAtUTC utc t" for t
    by (simp add: utc_def)
  have n: "sevenDaysAgo newYork 1710086400000 = 1709485200000"
    by (simp add: sevenDaysAgo_def newYork_def msPerDay_def)
  from save_then_load_round_trip[OF h, of utc 1700000000000 "[sampleMessage, sampleAnswer]"
         "Some ''session_1700000000000''" 1700600000000]
       save_then_load_round_trip[OF h, of utc 1700000000000 "[sampleMessage, sampleAnswer]"
         "Some ''session_1700000000000''" 1700604800001]
       save_then_load_round_trip[OF h, of newYork 1709485200000 "[sampleMessage, sampleAnswer]" None
         1710086400000]
       save_then_load_round_trip[OF h, of newYork 1709483400000 "[sampleMessage, sampleAnswer]" None
         1710086400000]
  show ?thesis
    by (simp add: u n sevenDaysAgo_utc)
qed

text \<open>
  The claim itself fails for a long history: of 101 messages saved, the load
  that follows returns 100.
\<close>

theorem long_history_is_cut:
  "saveThenLoad utc 1700000000000 (replicate 101 sampleMessage) None 1700000000000 emptyStorage
     = Inr (Some \<lparr>messages_d = replicate 100 sampleMessage, lastUpdated_d = Some 1700000000000,
                  sessionId_d = None\<rparr>)
   \<and> replicate 100 sampleMessage \<noteq> replicate 101 sampleMessage"
proof -
  have h: "\<not> setItem_throws emptyStorage" "\<not> getItem_throws emptyStorage"
    by (simp_all add: emptyStorage_def)
  have "replicate 100 sampleMessage \<noteq> replicate 101 sampleMessage"
  proof
    assume "replicate 100 sampleMessage = replicate 101 sampleMessage"
    then have "length (replicate 100 sampleMessage) = length (replicate 101 sampleMessage)" by simp
    then show False by simp
  qed
  moreover have "drop 1 (replicate 101 sampleMessage) = replicate 100 sampleMessage"
    by (simp add: drop_replicate)
  ultimately show ?thesis
    by (simp add: saveThenLoad_eq[OF h] sevenDaysAgo_utc dataToStore_def MAX_STORED_MESSAGES_def)
qed

text \<open>
  The week is a calendar week: in New York a snapshot saved on 3 March 2024 at
  11:30 local time is stale at noon on 10 March, 6 days and 23 hours 30 minutes
  later, because the clock was set forward in between.
\<close>

lemma clock_change_shortens_week:
  "sevenDaysAgo newYork 1710086400000 = 1709485200000
   \<and> 1710086400000 - 1709483400000 < (604800000 :: int)
   \<and> stale newYork 1710086400000
        \<lparr>messages_d = [sampleMessage], lastUpdated_d = Some 1709483400000, sessionId_d = None\<rparr>"
  by (simp add: sevenDaysAgo_def newYork_def msPerDay_def stale_def)

text \<open>
  C9. For every list of messages, the snapshot \<^verbatim>\<open>save\<close> builds holds the suffix
  of the list of length \<open>min (length msgs) 100\<close>. When the storage accepts the
  write, this snapshot is what the entry holds afterwards, and a load that
  follows returns \<^verbatim>\<open>null\<close> or a snapshot of at most 100 messages, a suffix of
  those passed to \<^verbatim>\<open>save\<close>. When the storage refuses the write the entry
  stays as it was; so if it held at most 100 messages before, a load after
  \<^verbatim>\<open>save\<close> returns at most 100 messages whatever the storage does.
\<close>

theorem saveMessages_keeps_last_100:
  "messages_d (dataToStore now msgs sid) = drop (length msgs - 100) msgs
   \<and> suffix (messages_d (dataToStore now msgs sid)) msgs
   \<and> length (messages_d (dataToStore now msgs sid)) = min (length msgs) 100
   \<and> (\<not> setItem_throws st \<longrightarrow>
        saveMessages now msgs sid st = Inr (st\<lparr>item := Some (Document (dataToStore now msgs sid))\<rparr>)
      \<and> (case saveThenLoad tz now msgs sid t1 st of
           Inl e \<Rightarrow> False
         | Inr None \<Rightarrow> True
         | Inr (Some d) \<Rightarrow> length (messages_d d) \<le> 100 \<and> suffix (messages_d d) msgs))
   \<and> ((case item st of Some (Document d0) \<Rightarrow> length (messages_d d0) \<le> 100 | _ \<Rightarrow> True) \<longrightarrow>
        (case saveThenLoad tz now msgs sid t1 st of
           Inl e \<Rightarrow> False
         | Inr None \<Rightarrow> True
         | Inr (Some d) \<Rightarrow> length (messages_d d) \<le> 100))"
  by (auto simp: dataToStore_def MAX_STORED_MESSAGES_def suffix_drop saveMessages_total
      saveThenLoad_def loadMessages_cases split: option.splits stored_text.splits)

theorem saveMessages_keeps_last_100_witness:
  "length (messages_d (dataToStore 1700000000000 (replicate 101 sampleMessage) None)) = 100
   \<and> saveMessages 1700000000000 (replicate 101 sampleMessage) None emptyStorage
       = Inr (emptyStorage\<lparr>item := Some (Document (dataToStore 1700000000000 (replicate 101 sampleMessage) None))\<rparr>)
   \<and> (case saveThenLoad utc 1700000000000 (replicate 101 sampleMessage) None 1700000000000 emptyStorage of
         Inl e \<Rightarrow> False
       | Inr None \<Rightarrow> True
       | Inr (Some d) \<Rightarrow> length (messages_d d) \<le> 100)"
proof -
  have h: "\<not> setItem_throws emptyStorage" "item emptyStorage = None"
    by (simp_all add: emptyStorage_def)
  from saveMessages_keeps_last_100
         [of 1700000000000 "replicate 101 sampleMessage" None emptyStorage utc 1700000000000] h
  show ?thesis by simp
qed

text \<open>
  C10. For every content of the storage, and whichever of its primitives throw,
  \<^verbatim>\<open>load\<close> returns: it never throws, and neither does \<^verbatim>\<open>clearMessages\<close>. With no
  entry it returns \<^verbatim>\<open>null\<close> and leaves the storage alone. With an entry that
  \<^verbatim>\<open>JSON.parse\<close> rejects it returns \<^verbatim>\<open>null\<close> after \<^verbatim>\<open>clearMessages\<close>, which
  removes the entry unless the storage refuses the removal.
\<close>

theorem loadMessages_never_throws:
  "(\<exists>r st'. loadMessages tz now st = Inr (r, st'))
   \<and> (\<exists>st'. clearMessages st = Inr st')
   \<and> (\<not> getItem_throws st \<and> item st = None \<longrightarrow> loadMessages tz now st = Inr (None, st))
   \<and> (\<not> getItem_throws st \<and> item st = Some Malformed \<longrightarrow>
        loadMessages tz now st = Inr (None, if removeItem_throws st then st else st\<lparr>item := None\<rparr>))"
  by (simp add: loadMessages_cases clearMessages_total split: option.splits stored_text.splits)

theorem loadMessages_never_throws_witness:
  "loadMessages utc 1700000000000 emptyStorage = Inr (None, emptyStorage)
   \<and> loadMessages utc 1700000000000 corruptStorage = Inr (None, emptyStorage)"
proof -
  have e: "\<not> getItem_throws emptyStorage \<and> item emptyStorage = None"
    by (simp add: emptyStorage_def)
  have c: "\<not> getItem_throws corruptStorage \<and> item corruptStorage = Some Malformed"
    by (simp add: corruptStorage_def emptyStorage_def)
  from loadMessages_never_throws[of utc 1700000000000 emptyStorage] e
       loadMessages_never_throws[of utc 1700000000000 corruptStorage] c
  show ?thesis
    by (simp add: corruptStorage_def emptyStorage_def)
qed

section \<open>Connection status\<close>

text \<open>
  C7. For every prior state and every status value, \<open>setConnectionStatus\<close> sets
  \<open>connectionStatus\<close> to the given status; \<open>retryCount\<close> becomes 0 when the new
  status is \<open>Connected\<close> and keeps its value for \<open>Disconnected\<close> and
  \<open>Reconnecting\<close>. No other field of the state changes.
\<close>

theorem setConnectionStatus_retryCount:
  "connectionStatus (setConnectionStatus st s) = st
   \<and> retryCount (setConnectionStatus st s) = (if st = Connected then 0 else retryCount s)
   \<and> retryCount (setConnectionStatus Disconnected s) = retryCount s
   \<and> retryCount (setConnectionStatus Reconnecting s) = retryCount s
   \<and> setConnectionStatus st s
       = s\<lparr>connectionStatus := st,
            retryCount := (if st = Connected then 0 else retryCount s)\<rparr>"
  by (simp add: setConnectionStatus_def Let_def)

end
